theory Spec2Isabelle
  imports Complex_Main
begin

unbundle bit_operations_syntax

section \<open>The vector-rank solver of dft/vrank-geq1.c\<close>

text \<open>
  The file dft/vrank-geq1.c peels one dimension off the vector shape of a DFT problem,
  asks the planner for a plan of the rest, and wraps that plan in a loop. This theory
  embeds its functions \<open>apply\<close>, \<open>pickdim\<close>, \<open>applicable\<close>, \<open>score\<close> and
  \<open>mkplan\<close>. The structs are modelled by the fields this file reads and writes.
  The macros and functions that the file takes from dft.h are fields of the record
  \<open>env\<close>, so that every theorem holds for each implementation of them, but for four
  small helpers, which are definitions marked as modelled from the specification.
\<close>

subsection \<open>Data\<close>

text \<open>
  The counts of the source (\<open>uint\<close>: the rank, a length, the loop counter, an index)
  are natural numbers, its \<open>int\<close>s (strides, \<open>vecloop_dim\<close>, the flags) are integers,
  and a pointer \<open>R *\<close> is an address counted in elements of \<open>R\<close>, so that \<open>ri + k\<close> is
  the address \<open>k\<close> elements on. The one arithmetic of the file in which the width of
  a machine integer matters is the product \<open>i * ivs\<close> of \<open>apply\<close>, which is computed
  with its wrap-around (\<open>uint_times_int\<close> below); an address itself has no width.
\<close>

type_synonym addr = int

text \<open>The struct \<open>iodim\<close>, by the fields that \<open>score\<close> and \<open>mkplan\<close> read: \<open>n\<close>, stored
  in the \<open>uint vl\<close> of a plan, and \<open>is\<close> and \<open>os\<close>, stored in its \<open>int\<close>s \<open>ivs\<close> and \<open>ovs\<close>
  (lines 196-198).\<close>

record iodim =
  iodim_n :: nat
  iodim_is :: int
  iodim_os :: int

text \<open>The struct \<open>tensor\<close>, by the fields this file reads: the rank \<open>rnk\<close> and the array
  \<open>dims\<close> of dimensions, which is indexed by a dimension index (lines 136 and 177).\<close>

record tensor =
  rnk :: nat
  dims :: "iodim list"

text \<open>The struct \<open>problem_dft\<close>, by the fields this file reads: the core shape \<open>sz\<close>,
  the vector shape \<open>vecsz\<close> and the four pointers \<open>ri\<close>, \<open>ii\<close>, \<open>ro\<close>, \<open>io\<close>.\<close>

record problem_dft =
  dft_sz :: tensor
  dft_vecsz :: tensor
  dft_ri :: addr
  dft_ii :: addr
  dft_ro :: addr
  dft_io :: addr

text \<open>A \<open>problem *\<close> points to a problem of some kind: \<open>applicable\<close> tests the kind
  with the macro \<open>DFTP\<close> before the cast \<open>(const problem_dft *) p_\<close>, which is the
  selector \<open>problem_dft_of\<close>.\<close>

datatype problem = Problem_dft (problem_dft_of: problem_dft) | Problem_other

fun DFTP :: "problem \<Rightarrow> bool" where
  "DFTP (Problem_dft p) = True"
| "DFTP Problem_other = False"

text \<open>The solver \<open>S\<close> (lines 39-44) and the plan \<open>P\<close> (lines 46-53). The child plan
  has an abstract type \<open>'c\<close>; \<open>P_ops\<close> and \<open>P_pcost\<close> are the fields \<open>super.super.ops\<close>
  and \<open>super.super.pcost\<close>, the latter a \<open>double\<close> read as a real number.\<close>

record S =
  S_vecloop_dim :: int
  S_buddies :: "int list"
  S_nbuddies :: nat

record ('c, 'o) P =
  P_cld :: 'c
  P_vl :: nat
  P_ivs :: int
  P_ovs :: int
  P_solver :: S
  P_ops :: 'o
  P_pcost :: real

subsection \<open>Executing the loop plan\<close>

text \<open>
  The products \<open>i * ivs\<close> and \<open>i * ovs\<close> of lines 63-64 have a \<open>uint\<close> and an \<open>int\<close>
  as factors. C converts the \<open>int\<close> to \<open>unsigned int\<close> and multiplies there, so the
  product is the mathematical one reduced modulo \<open>2 ^ 32\<close> (\<open>uint\<close> is \<open>unsigned int\<close>,
  printed with \<open>%u\<close> at line 85, of 32 bits): a value from 0 to \<open>2 ^ 32 - 1\<close>, which the
  pointer addition then steps forward by.
\<close>

definition uint_times_int :: "nat \<Rightarrow> int \<Rightarrow> int" where
  "uint_times_int i s = (int i * s) mod 2 ^ 32"

text \<open>
  \<open>apply\<close> (lines 55-66). The child's \<open>apply\<close> is read through the function pointer
  \<open>((plan_dft *) ego->cld)->apply\<close>; here it is the parameter \<open>plan_dft_apply\<close>, which
  maps a child plan to a transformer of the memory \<open>'w\<close> the transform works on.
  The \<open>for\<close> loop is \<open>apply_loop\<close>, started at \<open>i = 0\<close>. The count \<open>vl\<close> is a \<open>uint\<close>, so
  below \<open>2 ^ 32\<close>, and the counter stays below it: \<open>++i\<close> never wraps.
\<close>

type_synonym 'w dftapply = "addr \<Rightarrow> addr \<Rightarrow> addr \<Rightarrow> addr \<Rightarrow> 'w \<Rightarrow> 'w"

function apply_loop ::
  "'w dftapply \<Rightarrow> nat \<Rightarrow> nat \<Rightarrow> int \<Rightarrow> int \<Rightarrow> addr \<Rightarrow> addr \<Rightarrow> addr \<Rightarrow> addr \<Rightarrow> 'w \<Rightarrow> 'w"
where
  "apply_loop cldapply i vl ivs ovs ri ii ro io w =
     (if i < vl
      then apply_loop cldapply (Suc i) vl ivs ovs ri ii ro io
             (cldapply (ri + uint_times_int i ivs) (ii + uint_times_int i ivs)
                       (ro + uint_times_int i ovs) (io + uint_times_int i ovs) w)
      else w)"
  by pat_completeness auto
termination
  by (relation "measure (\<lambda>(cldapply, i, vl, rest). vl - i)") auto

declare apply_loop.simps [simp del]

definition "apply" ::
  "('c \<Rightarrow> 'w dftapply) \<Rightarrow> ('c, 'o) P \<Rightarrow> addr \<Rightarrow> addr \<Rightarrow> addr \<Rightarrow> addr \<Rightarrow> 'w \<Rightarrow> 'w"
where
  "apply plan_dft_apply ego ri ii ro io w =
     (let vl = P_vl ego; ivs = P_ivs ego; ovs = P_ovs ego;
          cldapply = plan_dft_apply (P_cld ego)
      in apply_loop cldapply 0 vl ivs ovs ri ii ro io w)"

subsection \<open>What the file takes from the planner and the tensor library\<close>

text \<open>The struct \<open>planner\<close>, of which this file reads and writes the field \<open>flags\<close>
  only, with \<open>&\<close>, \<open>|\<close> and \<open>~\<close>: an integer with the bitwise operations. The other
  fields of a planner are the extension of the record.\<close>

record planner =
  flags :: int

text \<open>The three scores \<open>BAD\<close>, \<open>UGLY\<close> and \<open>GOOD\<close> that \<open>score\<close> returns, an
  enumeration.\<close>

datatype tier = BAD | UGLY | GOOD

text \<open>Reading \<open>ego->buddies[0]\<close> of an empty array or \<open>vecsz.dims[vdim]\<close> beyond the
  rank is undefined in C; in the model it is the result \<open>Inl Out_of_bounds\<close>.\<close>

datatype fault = Out_of_bounds

text \<open>
  The collaborators declared in dft.h whose code is not in this file: the macro
  \<open>FINITE_RNK\<close>, the dimension selector \<open>X(pickdim)\<close>, \<open>X(tensor_max_index)\<close>,
  \<open>X(alignment_of)\<close>, \<open>X(ops_mul)\<close>, the planner's recursive entry \<open>MKPLAN\<close> (which may
  change the planner), the fields \<open>ops\<close> and \<open>pcost\<close> of a child plan, and the four
  flag constants. They are the fields of an environment, and nothing is assumed about
  them but what a theorem states. \<open>X(pickdim)\<close> returns the index it stores through
  \<open>dp\<close> when it succeeds.
\<close>

record ('c, 'o, 'z) env =
  FINITE_RNK :: "nat \<Rightarrow> bool"
  X_pickdim :: "int \<Rightarrow> int list \<Rightarrow> nat \<Rightarrow> tensor \<Rightarrow> bool \<Rightarrow> nat option"
  X_tensor_max_index :: "tensor \<Rightarrow> int"
  X_alignment_of :: "addr \<Rightarrow> int"
  X_ops_mul :: "nat \<Rightarrow> 'o \<Rightarrow> 'o"
  MKPLAN :: "'z planner_scheme \<Rightarrow> problem \<Rightarrow> 'c option \<times> 'z planner_scheme"
  plan_ops :: "'c \<Rightarrow> 'o"
  plan_pcost :: "'c \<Rightarrow> real"
  IMPATIENT :: int
  FORCE_VRECURSE :: int
  CLASSIC_VRECURSE :: int
  POSSIBLY_UNALIGNED :: int

text \<open>Modelled from the spec: \<open>X(imin)\<close> is not in this file; rule 4 of section 4.3
  calls it the minimum of the two strides.\<close>

definition X_imin :: "int \<Rightarrow> int \<Rightarrow> int" where
  "X_imin a b = (if a < b then a else b)"

text \<open>Modelled from the spec: \<open>X(tensor_copy)\<close> is not in this file; section 6 calls
  it a structural copy.\<close>

definition X_tensor_copy :: "tensor \<Rightarrow> tensor" where
  "X_tensor_copy t = t"

text \<open>Modelled from the spec: \<open>X(tensor_copy_except)\<close> is not in this file; by
  section 6 and step 4 of section 4.4 it copies the tensor without the dimension at
  the given index, the remaining dimensions in their order.\<close>

definition X_tensor_copy_except :: "tensor \<Rightarrow> nat \<Rightarrow> tensor" where
  "X_tensor_copy_except sz except_dim =
     \<lparr>rnk = rnk sz - 1, dims = take except_dim (dims sz) @ drop (Suc except_dim) (dims sz)\<rparr>"

text \<open>Modelled from the spec: \<open>X(mkproblem_dft_d)\<close> is not in this file; by step 4 of
  section 4.4 the problem built has the two shapes and the four pointers it is given.\<close>

definition X_mkproblem_dft_d :: "tensor \<Rightarrow> tensor \<Rightarrow> addr \<Rightarrow> addr \<Rightarrow> addr \<Rightarrow> addr \<Rightarrow> problem" where
  "X_mkproblem_dft_d sz vecsz ri ii ro io =
     Problem_dft \<lparr>dft_sz = sz, dft_vecsz = vecsz, dft_ri = ri, dft_ii = ii, dft_ro = ro, dft_io = io\<rparr>"

text \<open>The read of \<open>*(t.dims + i)\<close>; the list \<open>dims t\<close> is the array as allocated.\<close>

definition dims_at :: "tensor \<Rightarrow> nat \<Rightarrow> fault + iodim" where
  "dims_at t i = (if i < length (dims t) then Inr (dims t ! i) else Inl Out_of_bounds)"

subsection \<open>Applicability\<close>

text \<open>\<open>pickdim\<close> (lines 89-93) and \<open>applicable\<close> (lines 95-109); the arguments \<open>ego_\<close>
  and \<open>p_\<close> of the source are \<open>ego\<close> and \<open>p'\<close>. The result is the index stored through
  \<open>dp\<close>, or \<open>None\<close> for the return value 0.\<close>

definition pickdim :: "('c, 'o, 'z) env \<Rightarrow> S \<Rightarrow> tensor \<Rightarrow> bool \<Rightarrow> nat option" where
  "pickdim env ego vecsz oop =
     X_pickdim env (S_vecloop_dim ego) (S_buddies ego) (S_nbuddies ego) vecsz oop"

definition applicable :: "('c, 'o, 'z) env \<Rightarrow> S \<Rightarrow> problem \<Rightarrow> nat option" where
  "applicable env ego p' =
     (if DFTP p'
      then (let p = problem_dft_of p'
            in if FINITE_RNK env (rnk (dft_vecsz p)) \<and> rnk (dft_vecsz p) > 0
               then pickdim env ego (dft_vecsz p) (dft_ri p \<noteq> dft_ro p)
               else None)
      else None)"

subsection \<open>Scoring\<close>

text \<open>
  \<open>score\<close> (lines 111-151). The function takes the planner through a pointer; the
  model returns the planner it leaves beside the score, so that what \<open>score\<close> does to
  the planner is part of its result. The problem is a value of the model, which no
  function can change.
\<close>

definition score ::
  "('c, 'o, 'z) env \<Rightarrow> S \<Rightarrow> problem \<Rightarrow> 'z planner_scheme \<Rightarrow> (fault + tier) \<times> 'z planner_scheme"
where
  "score env ego p' plnr =
     (case applicable env ego p' of
        None \<Rightarrow> (Inr BAD, plnr)
      | Some vdim \<Rightarrow>
          if flags plnr AND IMPATIENT env \<noteq> 0 \<and> S_buddies ego = [] then (Inl Out_of_bounds, plnr)
          else if flags plnr AND IMPATIENT env \<noteq> 0 \<and> S_vecloop_dim ego \<noteq> hd (S_buddies ego)
          then (Inr BAD, plnr)
          else
            (let p = problem_dft_of p'
             in if flags plnr AND FORCE_VRECURSE env \<noteq> 0 \<and> rnk (dft_vecsz p) = 1
                then (Inr UGLY, plnr)
                else if rnk (dft_sz p) > 1
                then (case dims_at (dft_vecsz p) vdim of
                        Inl e \<Rightarrow> (Inl e, plnr)
                      | Inr d \<Rightarrow>
                          if X_imin (iodim_is d) (iodim_os d) < X_tensor_max_index env (dft_sz p)
                          then (Inr UGLY, plnr)
                          else if rnk (dft_sz p) = 0 \<and> rnk (dft_vecsz p) = 1
                          then (Inr UGLY, plnr)
                          else (Inr GOOD, plnr))
                else if rnk (dft_sz p) = 0 \<and> rnk (dft_vecsz p) = 1
                then (Inr UGLY, plnr)
                else (Inr GOOD, plnr)))"

subsection \<open>Building the plan\<close>

text \<open>
  \<open>mkplan\<close> (lines 153-205), with its blocks named: the one-shot use of the vector
  recursion flags (lines 171-173), the alignment record (lines 175-183), the reduced
  problem (lines 185-187) and the plan filled in (lines 193-202). The result is
  \<open>None\<close> for the null plan, beside the planner as \<open>mkplan\<close> leaves it.
  \<open>X(problem_destroy)\<close> frees the reduced problem and has no counterpart here;
  \<open>MKPLAN_DFT\<close> allocates the plan and installs \<open>apply\<close> as the function that
  executes it. The hooks \<open>awake\<close>, \<open>destroy\<close> and \<open>print\<close> (lines 68-87) are not part
  of this development.
\<close>

definition mkplan_vrecurse ::
  "('c, 'o, 'z) env \<Rightarrow> problem_dft \<Rightarrow> 'z planner_scheme \<Rightarrow> 'z planner_scheme"
where
  "mkplan_vrecurse env p plnr =
     (if rnk (dft_vecsz p) = 1 \<and> flags plnr AND CLASSIC_VRECURSE env \<noteq> 0
      then plnr\<lparr>flags := flags plnr AND (NOT (CLASSIC_VRECURSE env) AND NOT (FORCE_VRECURSE env))\<rparr>
      else plnr)"

definition mkplan_unaligned ::
  "('c, 'o, 'z) env \<Rightarrow> problem_dft \<Rightarrow> iodim \<Rightarrow> 'z planner_scheme \<Rightarrow> 'z planner_scheme"
where
  "mkplan_unaligned env p d plnr =
     (if iodim_n d > 0
      then (if X_alignment_of env (dft_ri p + iodim_is d) \<noteq> 0 \<or>
               X_alignment_of env (dft_ii p + iodim_is d) \<noteq> 0 \<or>
               X_alignment_of env (dft_ro p + iodim_os d) \<noteq> 0 \<or>
               X_alignment_of env (dft_io p + iodim_os d) \<noteq> 0
            then plnr\<lparr>flags := flags plnr OR POSSIBLY_UNALIGNED env\<rparr>
            else plnr)
      else plnr)"

definition mkplan_cldp :: "problem_dft \<Rightarrow> nat \<Rightarrow> problem" where
  "mkplan_cldp p vdim =
     X_mkproblem_dft_d (X_tensor_copy (dft_sz p)) (X_tensor_copy_except (dft_vecsz p) vdim)
       (dft_ri p) (dft_ii p) (dft_ro p) (dft_io p)"

definition mkplan_pln :: "('c, 'o, 'z) env \<Rightarrow> S \<Rightarrow> iodim \<Rightarrow> 'c \<Rightarrow> ('c, 'o) P" where
  "mkplan_pln env ego d cld =
     \<lparr>P_cld = cld, P_vl = iodim_n d, P_ivs = iodim_is d, P_ovs = iodim_os d,
      P_solver = ego,
      P_ops = X_ops_mul env (iodim_n d) (plan_ops env cld),
      P_pcost = real (iodim_n d) * plan_pcost env cld\<rparr>"

definition mkplan ::
  "('c, 'o, 'z) env \<Rightarrow> S \<Rightarrow> problem \<Rightarrow> 'z planner_scheme \<Rightarrow>
     fault + (('c, 'o) P option \<times> 'z planner_scheme)"
where
  "mkplan env ego p' plnr =
     (case applicable env ego p' of
        None \<Rightarrow> Inr (None, plnr)
      | Some vdim \<Rightarrow>
          (let p = problem_dft_of p';
               plnr1 = mkplan_vrecurse env p plnr
           in case dims_at (dft_vecsz p) vdim of
                Inl e \<Rightarrow> Inl e
              | Inr d \<Rightarrow>
                  (let plnr2 = mkplan_unaligned env p d plnr1;
                       cldp = mkplan_cldp p vdim
                   in case MKPLAN env plnr2 cldp of
                        (None, plnr3) \<Rightarrow> Inr (None, plnr3)
                      | (Some cld, plnr3) \<Rightarrow> Inr (Some (mkplan_pln env ego d cld), plnr3))))"

subsection \<open>Registration\<close>

text \<open>\<open>mksolver\<close> (lines 207-215) and \<open>X(dft_vrank_geq1_register)\<close> (lines 217-228):
  one solver for each entry of the list \<open>buddies = {1, -1}\<close>, each holding the list.\<close>

definition mksolver :: "int \<Rightarrow> int list \<Rightarrow> nat \<Rightarrow> S" where
  "mksolver vecloop_dim buddies nbuddies =
     \<lparr>S_vecloop_dim = vecloop_dim, S_buddies = buddies, S_nbuddies = nbuddies\<rparr>"

definition registered_buddies :: "int list" where
  "registered_buddies = [1, - 1]"

definition dft_vrank_geq1_register :: "S list" where
  "dft_vrank_geq1_register =
     map (\<lambda>b. mksolver b registered_buddies (length registered_buddies)) registered_buddies"

subsection \<open>Concrete inputs\<close>

text \<open>
  The inputs on which the theorems below are instantiated: the scenarios of section 8
  of the specification, with the collaborators stubbed. The selector answers \<open>sel\<close>,
  the largest index of a core shape is \<open>mx\<close>, the recursive solve answers \<open>child\<close>
  and leaves the planner as it is, every rank but the largest \<open>uint\<close> is finite, an
  address is aligned when it is even, and the four flags are four distinct bits.
\<close>

definition stub_env :: "nat option \<Rightarrow> int \<Rightarrow> nat option \<Rightarrow> (nat, nat, unit) env" where
  "stub_env sel mx child =
     \<lparr>FINITE_RNK = (\<lambda>r. r \<noteq> 4294967295),
      X_pickdim = (\<lambda>which_dim buddies nbuddies sz oop. sel),
      X_tensor_max_index = (\<lambda>sz. mx),
      X_alignment_of = (\<lambda>a. a mod 2),
      X_ops_mul = (\<lambda>k c. k * c),
      MKPLAN = (\<lambda>plnr cldp. (child, plnr)),
      plan_ops = (\<lambda>c. c),
      plan_pcost = (\<lambda>c. 1),
      IMPATIENT = 4,
      FORCE_VRECURSE = 1,
      CLASSIC_VRECURSE = 2,
      POSSIBLY_UNALIGNED = 8\<rparr>"

text \<open>The two solvers that the registration makes.\<close>

definition solver_first :: S where
  "solver_first = mksolver 1 registered_buddies 2"

definition solver_second :: S where
  "solver_second = mksolver (- 1) registered_buddies 2"

text \<open>The first scenario: one vector dimension of length 4 and strides 8 over a core
  shape of rank 0, on four separate arrays.\<close>

definition problem_vec4 :: problem_dft where
  "problem_vec4 =
     \<lparr>dft_sz = \<lparr>rnk = 0, dims = []\<rparr>,
      dft_vecsz = \<lparr>rnk = 1, dims = [\<lparr>iodim_n = 4, iodim_is = 8, iodim_os = 8\<rparr>]\<rparr>,
      dft_ri = 0, dft_ii = 500, dft_ro = 1000, dft_io = 1500\<rparr>"

text \<open>The second scenario: the vector shape \<open>[(3, 100, 100), (5, 1, 1)]\<close> over a core
  shape of rank 2 whose largest index is 50, on interleaved arrays.\<close>

definition problem_vec3x5 :: problem_dft where
  "problem_vec3x5 =
     \<lparr>dft_sz = \<lparr>rnk = 2, dims = [\<lparr>iodim_n = 6, iodim_is = 10, iodim_os = 10\<rparr>,
                                 \<lparr>iodim_n = 1, iodim_is = 1, iodim_os = 1\<rparr>]\<rparr>,
      dft_vecsz = \<lparr>rnk = 2, dims = [\<lparr>iodim_n = 3, iodim_is = 100, iodim_os = 100\<rparr>,
                                    \<lparr>iodim_n = 5, iodim_is = 1, iodim_os = 1\<rparr>]\<rparr>,
      dft_ri = 0, dft_ii = 1, dft_ro = 1000, dft_io = 1001\<rparr>"





text \<open>An environment whose recursive solve finds no plan and sets the two vector
  recursion flags in the planner it returns.\<close>

definition stub_env_setting :: "(nat, nat, unit) env" where
  "stub_env_setting =
     (stub_env (Some 0) 50 None)
       \<lparr>MKPLAN := (\<lambda>plnr cldp. (None, plnr\<lparr>flags := flags plnr OR 3\<rparr>))\<rparr>"

section \<open>Properties\<close>

subsection \<open>The loop\<close>

lemma apply_loop_fold:
  "apply_loop f i vl ivs ovs ri ii ro io w =
     fold (\<lambda>k. f (ri + uint_times_int k ivs) (ii + uint_times_int k ivs)
                  (ro + uint_times_int k ovs) (io + uint_times_int k ovs))
          [i..<vl] w"
proof (induction f i vl ivs ovs ri ii ro io w rule: apply_loop.induct)
  case (1 f i vl ivs ovs ri ii ro io w)
  show ?case
  proof (cases "i < vl")
    case True
    then have "[i..<vl] = i # [Suc i..<vl]"
      by (simp add: upt_conv_Cons)
    with True "1" show ?thesis
      by (subst apply_loop.simps) simp
  next
    case False
    then show ?thesis
      by (subst apply_loop.simps) simp
  qed
qed


text \<open>What \<open>apply\<close> does, for all strides: the calls are at the wrapped products.\<close>

lemma apply_fold:
  "apply A ego ri ii ro io w =
     fold (\<lambda>i. A (P_cld ego)
                  (ri + uint_times_int i (P_ivs ego)) (ii + uint_times_int i (P_ivs ego))
                  (ro + uint_times_int i (P_ovs ego)) (io + uint_times_int i (P_ovs ego)))
          [0..<P_vl ego] w"
  by (simp add: apply_def Let_def apply_loop_fold)



text \<open>The plan that \<open>mkplan\<close> fills in loops over the selected dimension.\<close>

lemma apply_mkplan_pln:
  "apply A (mkplan_pln env ego d cld) ri ii ro io w =
     fold (\<lambda>i. A cld (ri + uint_times_int i (iodim_is d)) (ii + uint_times_int i (iodim_is d))
                      (ro + uint_times_int i (iodim_os d)) (io + uint_times_int i (iodim_os d)))
          [0..<iodim_n d] w"
  by (simp add: apply_fold mkplan_pln_def)

text \<open>The registration makes the two solvers of the scenarios.\<close>

lemma dft_vrank_geq1_register_solvers:
  "dft_vrank_geq1_register = [solver_first, solver_second]"
  by (simp add: dft_vrank_geq1_register_def solver_first_def solver_second_def
      registered_buddies_def numeral_2_eq_2)




subsection \<open>Bits\<close>

lemma and_not_clears_left: "(f AND (NOT c AND NOT g)) AND c = (0::int)"
  by (auto simp add: bit_eq_iff bit_simps)

lemma and_not_clears_right: "(f AND (NOT c AND NOT g)) AND g = (0::int)"
  by (auto simp add: bit_eq_iff bit_simps)

lemma or_keeps_clear: "x AND c = 0 \<Longrightarrow> pu AND c = 0 \<Longrightarrow> (x OR pu) AND c = (0::int)"
  by (simp add: bit.conj_disj_distrib2)

lemma or_sets: "(x OR pu) AND pu = (pu::int)"
  by (auto simp add: bit_eq_iff bit_simps)

subsection \<open>The paths of \<open>mkplan\<close>\<close>

lemma applicable_not_DFTP: "\<not> DFTP p' \<Longrightarrow> applicable env ego p' = None"
  by (simp add: applicable_def)

lemma applicable_Some:
  assumes "applicable env ego (Problem_dft p) = Some vdim"
  shows "FINITE_RNK env (rnk (dft_vecsz p))" and "0 < rnk (dft_vecsz p)"
    and "pickdim env ego (dft_vecsz p) (dft_ri p \<noteq> dft_ro p) = Some vdim"
  using assms by (simp_all add: applicable_def Let_def split: if_splits)

lemma mkplan_inapplicable:
  "applicable env ego p' = None \<Longrightarrow> mkplan env ego p' plnr = Inr (None, plnr)"
  by (simp add: mkplan_def)

lemma mkplan_applicable:
  assumes "applicable env ego p' = Some vdim"
    and "dims_at (dft_vecsz (problem_dft_of p')) vdim = Inr d"
  shows "mkplan env ego p' plnr =
           (case MKPLAN env (mkplan_unaligned env (problem_dft_of p') d
                               (mkplan_vrecurse env (problem_dft_of p') plnr))
                            (mkplan_cldp (problem_dft_of p') vdim) of
              (None, plnr3) \<Rightarrow> Inr (None, plnr3)
            | (Some cld, plnr3) \<Rightarrow> Inr (Some (mkplan_pln env ego d cld), plnr3))"
  using assms by (simp add: mkplan_def Let_def)

lemma dims_at_Inr:
  "dims_at t i = Inr d \<Longrightarrow> i < length (dims t) \<and> d = dims t ! i"
  by (auto simp: dims_at_def split: if_splits)

lemma flags_mkplan_vrecurse:
  assumes "rnk (dft_vecsz p) = 1" and "flags plnr AND CLASSIC_VRECURSE env \<noteq> 0"
  shows "flags (mkplan_vrecurse env p plnr) AND CLASSIC_VRECURSE env = 0"
    and "flags (mkplan_vrecurse env p plnr) AND FORCE_VRECURSE env = 0"
  using assms by (simp_all add: mkplan_vrecurse_def and_not_clears_left and_not_clears_right)

lemma flags_mkplan_unaligned:
  "flags (mkplan_unaligned env p d plnr) = flags plnr \<or>
   flags (mkplan_unaligned env p d plnr) = flags plnr OR POSSIBLY_UNALIGNED env"
  by (simp add: mkplan_unaligned_def)

subsection \<open>The scenarios, evaluated\<close>

lemma applicable_stub_vec4:
  "applicable (stub_env sel mx child) ego (Problem_dft problem_vec4) = sel"
  by (simp add: applicable_def pickdim_def stub_env_def problem_vec4_def)

lemma applicable_stub_vec3x5:
  "applicable (stub_env sel mx child) ego (Problem_dft problem_vec3x5) = sel"
  by (simp add: applicable_def pickdim_def stub_env_def problem_vec3x5_def)

lemma dims_at_vec4:
  "dims_at (dft_vecsz problem_vec4) 0 = Inr \<lparr>iodim_n = 4, iodim_is = 8, iodim_os = 8\<rparr>"
  by (simp add: problem_vec4_def dims_at_def)

lemma dims_at_vec3x5:
  "dims_at (dft_vecsz problem_vec3x5) 1 = Inr \<lparr>iodim_n = 5, iodim_is = 1, iodim_os = 1\<rparr>"
  by (simp add: problem_vec3x5_def dims_at_def)

subsection \<open>The reduced problem\<close>

text \<open>
  Claim C2. When \<open>applicable\<close> succeeds with the index \<open>vdim\<close> of a dimension of the
  vector shape, \<open>mkplan\<close> hands to the recursive solve \<open>MKPLAN\<close> a DFT problem whose
  vector shape is the original one without the dimension at \<open>vdim\<close>, the others in
  their order (so its rank is one less), whose core shape is the original core shape
  and whose four pointers are the original ones.
\<close>

theorem mkplan_reduced_problem:
  assumes app: "applicable env ego (Problem_dft p) = Some vdim"
    and d: "dims_at (dft_vecsz p) vdim = Inr d"
  shows "\<exists>cldp.
           vdim < length (dims (dft_vecsz p)) \<and> d = dims (dft_vecsz p) ! vdim
         \<and> mkplan_cldp p vdim = Problem_dft cldp
         \<and> mkplan env ego (Problem_dft p) plnr =
             (case MKPLAN env (mkplan_unaligned env p d (mkplan_vrecurse env p plnr))
                              (Problem_dft cldp) of
                (None, plnr3) \<Rightarrow> Inr (None, plnr3)
              | (Some cld, plnr3) \<Rightarrow> Inr (Some (mkplan_pln env ego d cld), plnr3))
         \<and> dims (dft_vecsz cldp) =
             take vdim (dims (dft_vecsz p)) @ drop (Suc vdim) (dims (dft_vecsz p))
         \<and> length (dims (dft_vecsz cldp)) = length (dims (dft_vecsz p)) - 1
         \<and> (\<forall>i < length (dims (dft_vecsz p)) - 1.
               dims (dft_vecsz cldp) ! i =
                 (if i < vdim then dims (dft_vecsz p) ! i else dims (dft_vecsz p) ! Suc i))
         \<and> 0 < rnk (dft_vecsz p) \<and> rnk (dft_vecsz cldp) = rnk (dft_vecsz p) - 1
         \<and> dft_sz cldp = dft_sz p
         \<and> dft_ri cldp = dft_ri p \<and> dft_ii cldp = dft_ii p
         \<and> dft_ro cldp = dft_ro p \<and> dft_io cldp = dft_io p"
proof -
  let ?ds = "dims (dft_vecsz p)"
  from d have ds: "vdim < length ?ds" "d = ?ds ! vdim"
    by (auto dest: dims_at_Inr)
  from app have pos: "0 < rnk (dft_vecsz p)"
    by (auto dest: applicable_Some)
  define cldp where "cldp =
    \<lparr>dft_sz = dft_sz p,
     dft_vecsz = \<lparr>rnk = rnk (dft_vecsz p) - 1, dims = take vdim ?ds @ drop (Suc vdim) ?ds\<rparr>,
     dft_ri = dft_ri p, dft_ii = dft_ii p, dft_ro = dft_ro p, dft_io = dft_io p\<rparr>"
  have c: "mkplan_cldp p vdim = Problem_dft cldp"
    by (simp add: mkplan_cldp_def X_mkproblem_dft_d_def X_tensor_copy_def
        X_tensor_copy_except_def cldp_def)
  have m: "mkplan env ego (Problem_dft p) plnr =
             (case MKPLAN env (mkplan_unaligned env p d (mkplan_vrecurse env p plnr))
                              (Problem_dft cldp) of
                (None, plnr3) \<Rightarrow> Inr (None, plnr3)
              | (Some cld, plnr3) \<Rightarrow> Inr (Some (mkplan_pln env ego d cld), plnr3))"
    using mkplan_applicable [OF app, of d plnr] d c by simp
  have len: "length (take vdim ?ds @ drop (Suc vdim) ?ds) = length ?ds - 1"
    using ds(1) by simp
  have nth: "\<forall>i < length ?ds - 1.
      (take vdim ?ds @ drop (Suc vdim) ?ds) ! i = (if i < vdim then ?ds ! i else ?ds ! Suc i)"
    using ds(1) by (auto simp: nth_append min_def)
  show ?thesis
    apply (rule exI [of _ cldp])
    using ds c m len nth pos by (simp add: cldp_def)
qed

theorem mkplan_reduced_problem_witness:
  "applicable (stub_env (Some 1) 50 (Some 7)) solver_second (Problem_dft problem_vec3x5) = Some 1
   \<and> dims_at (dft_vecsz problem_vec3x5) 1 = Inr \<lparr>iodim_n = 5, iodim_is = 1, iodim_os = 1\<rparr>
   \<and> (\<exists>cldp.
         1 < length (dims (dft_vecsz problem_vec3x5))
       \<and> mkplan_cldp problem_vec3x5 1 = Problem_dft cldp
       \<and> dims (dft_vecsz cldp) =
           take 1 (dims (dft_vecsz problem_vec3x5)) @ drop (Suc 1) (dims (dft_vecsz problem_vec3x5))
       \<and> rnk (dft_vecsz cldp) = rnk (dft_vecsz problem_vec3x5) - 1
       \<and> dft_sz cldp = dft_sz problem_vec3x5
       \<and> dft_ri cldp = dft_ri problem_vec3x5 \<and> dft_ii cldp = dft_ii problem_vec3x5
       \<and> dft_ro cldp = dft_ro problem_vec3x5 \<and> dft_io cldp = dft_io problem_vec3x5)
   \<and> mkplan_cldp problem_vec3x5 1 =
       Problem_dft \<lparr>dft_sz = dft_sz problem_vec3x5,
                    dft_vecsz = \<lparr>rnk = 1, dims = [\<lparr>iodim_n = 3, iodim_is = 100, iodim_os = 100\<rparr>]\<rparr>,
                    dft_ri = 0, dft_ii = 1, dft_ro = 1000, dft_io = 1001\<rparr>"
proof -
  let ?env = "stub_env (Some 1) 50 (Some 7)"
  have app: "applicable ?env solver_second (Problem_dft problem_vec3x5) = Some 1"
    by (rule applicable_stub_vec3x5)
  note d = dims_at_vec3x5
  have c: "mkplan_cldp problem_vec3x5 1 =
       Problem_dft \<lparr>dft_sz = dft_sz problem_vec3x5,
                    dft_vecsz = \<lparr>rnk = 1, dims = [\<lparr>iodim_n = 3, iodim_is = 100, iodim_os = 100\<rparr>]\<rparr>,
                    dft_ri = 0, dft_ii = 1, dft_ro = 1000, dft_io = 1001\<rparr>"
    by (simp add: mkplan_cldp_def X_mkproblem_dft_d_def X_tensor_copy_def
        X_tensor_copy_except_def problem_vec3x5_def)
  from app d c mkplan_reduced_problem [where plnr = "\<lparr>flags = 0\<rparr>", OF app d] show ?thesis
    by blast
qed

subsection \<open>The vector recursion flags\<close>

text \<open>
  Claim C3, as the code has it. On an applicable problem whose vector shape has rank
  1, with \<open>CLASSIC_VRECURSE\<close> set in the planner's flags when \<open>mkplan\<close> is called, and
  with \<open>POSSIBLY_UNALIGNED\<close> a bit other than \<open>CLASSIC_VRECURSE\<close> and \<open>FORCE_VRECURSE\<close>:
  both flags are clear after lines 171-173 and in the planner that \<open>mkplan\<close> hands to
  the recursive solve; and if the recursive solve does not set them, both are clear
  in the planner that \<open>mkplan\<close> leaves, whether it returns a plan or not.
\<close>

theorem mkplan_consumes_vrecurse:
  assumes app: "applicable env ego (Problem_dft p) = Some vdim"
    and d: "dims_at (dft_vecsz p) vdim = Inr d"
    and rank1: "rnk (dft_vecsz p) = 1"
    and classic: "flags plnr AND CLASSIC_VRECURSE env \<noteq> 0"
    and bits: "POSSIBLY_UNALIGNED env AND CLASSIC_VRECURSE env = 0"
              "POSSIBLY_UNALIGNED env AND FORCE_VRECURSE env = 0"
  shows "flags (mkplan_vrecurse env p plnr) AND CLASSIC_VRECURSE env = 0
       \<and> flags (mkplan_vrecurse env p plnr) AND FORCE_VRECURSE env = 0
       \<and> flags (mkplan_unaligned env p d (mkplan_vrecurse env p plnr)) AND CLASSIC_VRECURSE env = 0
       \<and> flags (mkplan_unaligned env p d (mkplan_vrecurse env p plnr)) AND FORCE_VRECURSE env = 0
       \<and> mkplan env ego (Problem_dft p) plnr =
           (case MKPLAN env (mkplan_unaligned env p d (mkplan_vrecurse env p plnr))
                            (mkplan_cldp p vdim) of
              (None, plnr3) \<Rightarrow> Inr (None, plnr3)
            | (Some cld, plnr3) \<Rightarrow> Inr (Some (mkplan_pln env ego d cld), plnr3))
       \<and> ((\<forall>pl cp. flags pl AND CLASSIC_VRECURSE env = 0 \<and> flags pl AND FORCE_VRECURSE env = 0 \<longrightarrow>
               flags (snd (MKPLAN env pl cp)) AND CLASSIC_VRECURSE env = 0 \<and>
               flags (snd (MKPLAN env pl cp)) AND FORCE_VRECURSE env = 0) \<longrightarrow>
           (\<exists>r plnr'. mkplan env ego (Problem_dft p) plnr = Inr (r, plnr')
              \<and> flags plnr' AND CLASSIC_VRECURSE env = 0
              \<and> flags plnr' AND FORCE_VRECURSE env = 0))"
proof -
  let ?plnr1 = "mkplan_vrecurse env p plnr"
  let ?plnr2 = "mkplan_unaligned env p d ?plnr1"
  let ?C = "CLASSIC_VRECURSE env" and ?F = "FORCE_VRECURSE env"
  have one: "flags ?plnr1 AND ?C = 0" "flags ?plnr1 AND ?F = 0"
    using flags_mkplan_vrecurse [OF rank1 classic] by simp_all
  have two: "flags ?plnr2 AND ?C = 0" "flags ?plnr2 AND ?F = 0"
    using flags_mkplan_unaligned [of env p d ?plnr1] one bits
    by (auto simp: or_keeps_clear)
  have m: "mkplan env ego (Problem_dft p) plnr =
             (case MKPLAN env ?plnr2 (mkplan_cldp p vdim) of
                (None, plnr3) \<Rightarrow> Inr (None, plnr3)
              | (Some cld, plnr3) \<Rightarrow> Inr (Some (mkplan_pln env ego d cld), plnr3))"
    using mkplan_applicable [OF app, of d plnr] d by simp
  have fin: "\<exists>r plnr'. mkplan env ego (Problem_dft p) plnr = Inr (r, plnr')
              \<and> flags plnr' AND ?C = 0 \<and> flags plnr' AND ?F = 0"
    if frame: "\<forall>pl cp. flags pl AND ?C = 0 \<and> flags pl AND ?F = 0 \<longrightarrow>
               flags (snd (MKPLAN env pl cp)) AND ?C = 0 \<and>
               flags (snd (MKPLAN env pl cp)) AND ?F = 0"
  proof -
    obtain cld plnr3 where r: "MKPLAN env ?plnr2 (mkplan_cldp p vdim) = (cld, plnr3)"
      by (cases "MKPLAN env ?plnr2 (mkplan_cldp p vdim)")
    from frame two have "flags (snd (MKPLAN env ?plnr2 (mkplan_cldp p vdim))) AND ?C = 0"
      "flags (snd (MKPLAN env ?plnr2 (mkplan_cldp p vdim))) AND ?F = 0"
      by blast+
    with r have "flags plnr3 AND ?C = 0" "flags plnr3 AND ?F = 0" by simp_all
    with m r show ?thesis by (cases cld) simp_all
  qed
  from one two m fin show ?thesis by blast
qed

theorem mkplan_consumes_vrecurse_witness:
  "applicable (stub_env (Some 0) 50 None) solver_first (Problem_dft problem_vec4) = Some 0
   \<and> dims_at (dft_vecsz problem_vec4) 0 = Inr \<lparr>iodim_n = 4, iodim_is = 8, iodim_os = 8\<rparr>
   \<and> rnk (dft_vecsz problem_vec4) = 1
   \<and> flags \<lparr>flags = 3\<rparr> AND CLASSIC_VRECURSE (stub_env (Some 0) 50 None) \<noteq> 0
   \<and> mkplan (stub_env (Some 0) 50 None) solver_first (Problem_dft problem_vec4) \<lparr>flags = 3\<rparr>
       = Inr (None, \<lparr>flags = 0\<rparr>)
   \<and> (\<exists>r plnr'. mkplan (stub_env (Some 0) 50 None) solver_first (Problem_dft problem_vec4)
                   \<lparr>flags = 3\<rparr> = Inr (r, plnr')
         \<and> flags plnr' AND CLASSIC_VRECURSE (stub_env (Some 0) 50 None) = 0
         \<and> flags plnr' AND FORCE_VRECURSE (stub_env (Some 0) 50 None) = 0)"
proof -
  let ?env = "stub_env (Some 0) 50 None"
  have app: "applicable ?env solver_first (Problem_dft problem_vec4) = Some 0"
    by (rule applicable_stub_vec4)
  note d = dims_at_vec4
  have rank1: "rnk (dft_vecsz problem_vec4) = 1"
    by (simp add: problem_vec4_def)
  have classic: "flags \<lparr>flags = 3\<rparr> AND CLASSIC_VRECURSE ?env \<noteq> 0"
    by (simp add: stub_env_def)
  have bits: "POSSIBLY_UNALIGNED ?env AND CLASSIC_VRECURSE ?env = 0"
    "POSSIBLY_UNALIGNED ?env AND FORCE_VRECURSE ?env = 0"
    by (simp_all add: stub_env_def)
  have frame: "\<forall>pl cp. flags pl AND CLASSIC_VRECURSE ?env = 0 \<and> flags pl AND FORCE_VRECURSE ?env = 0 \<longrightarrow>
               flags (snd (MKPLAN ?env pl cp)) AND CLASSIC_VRECURSE ?env = 0 \<and>
               flags (snd (MKPLAN ?env pl cp)) AND FORCE_VRECURSE ?env = 0"
    by (simp add: stub_env_def)
  have run: "mkplan ?env solver_first (Problem_dft problem_vec4) \<lparr>flags = 3\<rparr>
       = Inr (None, \<lparr>flags = 0\<rparr>)"
    using app d rank1
    by (simp add: mkplan_def mkplan_vrecurse_def mkplan_unaligned_def stub_env_def
        problem_vec4_def)
  from mkplan_consumes_vrecurse [OF app d rank1 classic bits] frame
  have "\<exists>r plnr'. mkplan ?env solver_first (Problem_dft problem_vec4) \<lparr>flags = 3\<rparr> = Inr (r, plnr')
         \<and> flags plnr' AND CLASSIC_VRECURSE ?env = 0
         \<and> flags plnr' AND FORCE_VRECURSE ?env = 0"
    by blast
  with app d rank1 classic run show ?thesis by blast
qed

text \<open>
  The claim as the specification states it, for every recursive solve, fails: the
  flags that \<open>mkplan\<close> leaves are those the recursive solve returns, and a solve that
  sets the two flags again leaves them set. Here \<open>mkplan\<close> is called with the flags 3,
  clears both bits, and returns with the flags 3.
\<close>

theorem mkplan_consumes_vrecurse_counterexample:
  "applicable stub_env_setting solver_first (Problem_dft problem_vec4) = Some 0
   \<and> rnk (dft_vecsz problem_vec4) = 1
   \<and> flags \<lparr>flags = 3\<rparr> AND CLASSIC_VRECURSE stub_env_setting \<noteq> 0
   \<and> flags (mkplan_vrecurse stub_env_setting problem_vec4 \<lparr>flags = 3\<rparr>) = 0
   \<and> mkplan stub_env_setting solver_first (Problem_dft problem_vec4) \<lparr>flags = 3\<rparr>
       = Inr (None, \<lparr>flags = 3\<rparr>)
   \<and> flags \<lparr>flags = 3\<rparr> AND CLASSIC_VRECURSE stub_env_setting = 2
   \<and> flags \<lparr>flags = 3\<rparr> AND FORCE_VRECURSE stub_env_setting = 1"
proof -
  have app: "applicable stub_env_setting solver_first (Problem_dft problem_vec4) = Some 0"
    by (simp add: applicable_def pickdim_def stub_env_setting_def stub_env_def problem_vec4_def)
  have rank1: "rnk (dft_vecsz problem_vec4) = 1"
    by (simp add: problem_vec4_def)
  have bitvals: "CLASSIC_VRECURSE stub_env_setting = 2" "FORCE_VRECURSE stub_env_setting = 1"
    "POSSIBLY_UNALIGNED stub_env_setting = 8"
    by (simp_all add: stub_env_setting_def stub_env_def)
  have v: "mkplan_vrecurse stub_env_setting problem_vec4 \<lparr>flags = 3\<rparr> = \<lparr>flags = 0\<rparr>"
    by (simp add: mkplan_vrecurse_def rank1 bitvals)
  have u: "mkplan_unaligned stub_env_setting problem_vec4
             \<lparr>iodim_n = 4, iodim_is = 8, iodim_os = 8\<rparr> \<lparr>flags = 0\<rparr> = \<lparr>flags = 0\<rparr>"
    by (simp add: mkplan_unaligned_def stub_env_setting_def stub_env_def problem_vec4_def)
  have s: "MKPLAN stub_env_setting \<lparr>flags = 0\<rparr> cp = (None, \<lparr>flags = 3\<rparr>)" for cp
    by (simp add: stub_env_setting_def stub_env_def)
  have run: "mkplan stub_env_setting solver_first (Problem_dft problem_vec4) \<lparr>flags = 3\<rparr>
       = Inr (None, \<lparr>flags = 3\<rparr>)"
    unfolding mkplan_applicable [OF app, of "\<lparr>iodim_n = 4, iodim_is = 8, iodim_os = 8\<rparr>",
        simplified, OF dims_at_vec4]
    by (simp add: v u s)
  show ?thesis
    using app rank1 v run by (simp add: bitvals)
qed

subsection \<open>Scores\<close>

text \<open>
  Claim C4. Whatever the problem and the flags: when \<open>applicable\<close> fails, \<open>score\<close>
  returns \<open>BAD\<close> (so never \<open>GOOD\<close>); and when \<open>IMPATIENT\<close> is set and the solver's
  \<open>vecloop_dim\<close> differs from the first entry of its list \<open>buddies\<close>, \<open>score\<close> returns
  \<open>BAD\<close>, under no other condition.
\<close>

theorem score_BAD:
  "(applicable env ego p' = None \<longrightarrow> fst (score env ego p' plnr) = Inr BAD)
   \<and> (\<forall>b bs. flags plnr AND IMPATIENT env \<noteq> 0 \<and> S_buddies ego = b # bs \<and> S_vecloop_dim ego \<noteq> b
        \<longrightarrow> fst (score env ego p' plnr) = Inr BAD)"
  by (auto simp: score_def split: option.splits)

theorem score_BAD_witness:
  "(applicable (stub_env None 50 None) solver_first (Problem_dft problem_vec4) = None
    \<and> fst (score (stub_env None 50 None) solver_first (Problem_dft problem_vec4) \<lparr>flags = 0\<rparr>)
        = Inr BAD)
   \<and> (flags \<lparr>flags = 4\<rparr> AND IMPATIENT (stub_env (Some 1) 50 None) \<noteq> 0
      \<and> S_buddies solver_second = 1 # [- 1] \<and> S_vecloop_dim solver_second \<noteq> 1
      \<and> fst (score (stub_env (Some 1) 50 None) solver_second (Problem_dft problem_vec3x5)
                \<lparr>flags = 4\<rparr>) = Inr BAD)"
proof -
  have none: "applicable (stub_env None 50 None) solver_first (Problem_dft problem_vec4) = None"
    by (rule applicable_stub_vec4)
  have imp: "flags \<lparr>flags = 4\<rparr> AND IMPATIENT (stub_env (Some 1) 50 None) \<noteq> 0"
    by (simp add: stub_env_def)
  have bud: "S_buddies solver_second = 1 # [- 1]" "S_vecloop_dim solver_second \<noteq> 1"
    by (simp_all add: solver_second_def mksolver_def registered_buddies_def)
  from none imp bud
    score_BAD [of "stub_env None 50 None" solver_first "Problem_dft problem_vec4" "\<lparr>flags = 0\<rparr>"]
    score_BAD [of "stub_env (Some 1) 50 None" solver_second "Problem_dft problem_vec3x5"
                  "\<lparr>flags = 4\<rparr>"]
  show ?thesis by blast
qed

text \<open>
  Claim C5. On an applicable problem whose selected index is a dimension \<open>d\<close> of the
  vector shape, when rule 2 does not fire (\<open>IMPATIENT\<close> is clear, or \<open>vecloop_dim\<close> is
  the first entry of \<open>buddies\<close>): if the core shape has rank greater than 1 and the
  minimum of the strides \<open>is\<close> and \<open>os\<close> of \<open>d\<close> is smaller than the largest index of
  the core shape, \<open>score\<close> returns \<open>UGLY\<close>, whether rule 3 fires or not.
\<close>

theorem score_UGLY_stride:
  assumes app: "applicable env ego (Problem_dft p) = Some vdim"
    and d: "dims_at (dft_vecsz p) vdim = Inr d"
    and rule2: "flags plnr AND IMPATIENT env = 0 \<or> (\<exists>bs. S_buddies ego = S_vecloop_dim ego # bs)"
    and core: "rnk (dft_sz p) > 1"
    and stride: "min (iodim_is d) (iodim_os d) < X_tensor_max_index env (dft_sz p)"
  shows "fst (score env ego (Problem_dft p) plnr) = Inr UGLY"
proof -
  have "X_imin (iodim_is d) (iodim_os d) = min (iodim_is d) (iodim_os d)"
    by (simp add: X_imin_def min_def)
  with assms show ?thesis
    by (auto simp: score_def Let_def)
qed

text \<open>The second scenario of section 8: the selected dimension is \<open>(5, 1, 1)\<close>.\<close>

theorem score_UGLY_stride_witness:
  "applicable (stub_env (Some 1) 50 None) solver_second (Problem_dft problem_vec3x5) = Some 1
   \<and> dims_at (dft_vecsz problem_vec3x5) 1 = Inr \<lparr>iodim_n = 5, iodim_is = 1, iodim_os = 1\<rparr>
   \<and> flags \<lparr>flags = 0\<rparr> AND IMPATIENT (stub_env (Some 1) 50 None) = 0
   \<and> rnk (dft_sz problem_vec3x5) = 2
   \<and> min (iodim_is \<lparr>iodim_n = 5, iodim_is = 1, iodim_os = 1\<rparr>)
          (iodim_os \<lparr>iodim_n = 5, iodim_is = 1, iodim_os = 1\<rparr>) = 1
   \<and> X_tensor_max_index (stub_env (Some 1) 50 None) (dft_sz problem_vec3x5) = 50
   \<and> fst (score (stub_env (Some 1) 50 None) solver_second (Problem_dft problem_vec3x5)
             \<lparr>flags = 0\<rparr>) = Inr UGLY"
proof -
  let ?env = "stub_env (Some 1) 50 None"
  let ?d = "\<lparr>iodim_n = 5, iodim_is = 1, iodim_os = 1\<rparr>"
  have app: "applicable ?env solver_second (Problem_dft problem_vec3x5) = Some 1"
    by (rule applicable_stub_vec3x5)
  note d = dims_at_vec3x5
  have imp: "flags \<lparr>flags = 0\<rparr> AND IMPATIENT ?env = 0"
    by simp
  have rule2: "flags \<lparr>flags = 0\<rparr> AND IMPATIENT ?env = 0
      \<or> (\<exists>bs. S_buddies solver_second = S_vecloop_dim solver_second # bs)"
    using imp by blast
  have rank2: "rnk (dft_sz problem_vec3x5) = 2"
    by (simp add: problem_vec3x5_def)
  have core: "rnk (dft_sz problem_vec3x5) > 1"
    by (simp add: rank2)
  have mn: "min (iodim_is ?d) (iodim_os ?d) = 1"
    by simp
  have mx: "X_tensor_max_index ?env (dft_sz problem_vec3x5) = 50"
    by (simp add: stub_env_def)
  have stride: "min (iodim_is ?d) (iodim_os ?d) < X_tensor_max_index ?env (dft_sz problem_vec3x5)"
    unfolding mn mx by simp
  from app d imp rank2 mn mx
    score_UGLY_stride [OF app d rule2 core stride]
  show ?thesis by blast
qed

text \<open>
  Claim C6. On an applicable problem for which rule 2 does not fire, if
  \<open>FORCE_VRECURSE\<close> is set and the vector shape has rank exactly 1, \<open>score\<close> returns
  \<open>UGLY\<close>.
\<close>

theorem score_UGLY_force_vrecurse:
  assumes app: "applicable env ego (Problem_dft p) = Some vdim"
    and rule2: "flags plnr AND IMPATIENT env = 0 \<or> (\<exists>bs. S_buddies ego = S_vecloop_dim ego # bs)"
    and force: "flags plnr AND FORCE_VRECURSE env \<noteq> 0"
    and rank1: "rnk (dft_vecsz p) = 1"
  shows "fst (score env ego (Problem_dft p) plnr) = Inr UGLY"
  using assms by (auto simp: score_def Let_def)

theorem score_UGLY_force_vrecurse_witness:
  "applicable (stub_env (Some 0) 50 None) solver_first (Problem_dft problem_vec4) = Some 0
   \<and> (\<exists>bs. S_buddies solver_first = S_vecloop_dim solver_first # bs)
   \<and> flags \<lparr>flags = 5\<rparr> AND FORCE_VRECURSE (stub_env (Some 0) 50 None) \<noteq> 0
   \<and> rnk (dft_vecsz problem_vec4) = 1
   \<and> fst (score (stub_env (Some 0) 50 None) solver_first (Problem_dft problem_vec4)
             \<lparr>flags = 5\<rparr>) = Inr UGLY"
proof -
  let ?env = "stub_env (Some 0) 50 None"
  have app: "applicable ?env solver_first (Problem_dft problem_vec4) = Some 0"
    by (rule applicable_stub_vec4)
  have bud: "\<exists>bs. S_buddies solver_first = S_vecloop_dim solver_first # bs"
    by (simp add: solver_first_def mksolver_def registered_buddies_def)
  then have rule2: "flags \<lparr>flags = 5\<rparr> AND IMPATIENT ?env = 0
      \<or> (\<exists>bs. S_buddies solver_first = S_vecloop_dim solver_first # bs)"
    by blast
  have force: "flags \<lparr>flags = 5\<rparr> AND FORCE_VRECURSE ?env \<noteq> 0"
    by (simp add: stub_env_def)
  have rank1: "rnk (dft_vecsz problem_vec4) = 1"
    by (simp add: problem_vec4_def)
  from app bud force rank1
    score_UGLY_force_vrecurse [OF app rule2 force rank1]
  show ?thesis by blast
qed

subsection \<open>The alignment record\<close>

text \<open>
  Claim C7. On an applicable problem whose selected index is a dimension \<open>d\<close> of the
  vector shape, \<open>mkplan\<close> hands to the recursive solve the planner that lines 175-183
  leave. If \<open>d\<close> has a length greater than 0 and one of the addresses \<open>ri + is\<close>,
  \<open>ii + is\<close>, \<open>ro + os\<close>, \<open>io + os\<close> has a non-zero alignment, these lines set
  \<open>POSSIBLY_UNALIGNED\<close> in the flags and change nothing else; if the length is 0 or
  the four alignments are zero, they leave the planner as it is.
\<close>

theorem mkplan_records_alignment:
  assumes app: "applicable env ego (Problem_dft p) = Some vdim"
    and d: "dims_at (dft_vecsz p) vdim = Inr d"
  shows "mkplan env ego (Problem_dft p) plnr =
           (case MKPLAN env (mkplan_unaligned env p d (mkplan_vrecurse env p plnr))
                            (mkplan_cldp p vdim) of
              (None, plnr3) \<Rightarrow> Inr (None, plnr3)
            | (Some cld, plnr3) \<Rightarrow> Inr (Some (mkplan_pln env ego d cld), plnr3))
       \<and> (\<forall>pl. (iodim_n d > 0 \<and>
                 (X_alignment_of env (dft_ri p + iodim_is d) \<noteq> 0 \<or>
                  X_alignment_of env (dft_ii p + iodim_is d) \<noteq> 0 \<or>
                  X_alignment_of env (dft_ro p + iodim_os d) \<noteq> 0 \<or>
                  X_alignment_of env (dft_io p + iodim_os d) \<noteq> 0)
               \<longrightarrow> mkplan_unaligned env p d pl = pl\<lparr>flags := flags pl OR POSSIBLY_UNALIGNED env\<rparr>
                 \<and> flags (mkplan_unaligned env p d pl) AND POSSIBLY_UNALIGNED env
                     = POSSIBLY_UNALIGNED env)
             \<and> (iodim_n d = 0 \<or>
                 (X_alignment_of env (dft_ri p + iodim_is d) = 0 \<and>
                  X_alignment_of env (dft_ii p + iodim_is d) = 0 \<and>
                  X_alignment_of env (dft_ro p + iodim_os d) = 0 \<and>
                  X_alignment_of env (dft_io p + iodim_os d) = 0)
               \<longrightarrow> mkplan_unaligned env p d pl = pl))"
proof -
  have m: "mkplan env ego (Problem_dft p) plnr =
           (case MKPLAN env (mkplan_unaligned env p d (mkplan_vrecurse env p plnr))
                            (mkplan_cldp p vdim) of
              (None, plnr3) \<Rightarrow> Inr (None, plnr3)
            | (Some cld, plnr3) \<Rightarrow> Inr (Some (mkplan_pln env ego d cld), plnr3))"
    using mkplan_applicable [OF app, of d plnr] d by simp
  show ?thesis
    unfolding m [symmetric]
    by (auto simp: mkplan_unaligned_def or_sets)
qed

text \<open>The second scenario, where \<open>ri + 1\<close> is odd, and the first, where the four
  addresses stay even.\<close>

theorem mkplan_records_alignment_witness:
  "(applicable (stub_env (Some 1) 50 (Some 7)) solver_second (Problem_dft problem_vec3x5) = Some 1
    \<and> dims_at (dft_vecsz problem_vec3x5) 1 = Inr \<lparr>iodim_n = 5, iodim_is = 1, iodim_os = 1\<rparr>
    \<and> X_alignment_of (stub_env (Some 1) 50 (Some 7)) (dft_ri problem_vec3x5 + 1) \<noteq> 0
    \<and> mkplan_unaligned (stub_env (Some 1) 50 (Some 7)) problem_vec3x5
         \<lparr>iodim_n = 5, iodim_is = 1, iodim_os = 1\<rparr> \<lparr>flags = 0\<rparr> = \<lparr>flags = 8\<rparr>
    \<and> mkplan (stub_env (Some 1) 50 (Some 7)) solver_second (Problem_dft problem_vec3x5)
         \<lparr>flags = 0\<rparr> =
        Inr (Some (mkplan_pln (stub_env (Some 1) 50 (Some 7)) solver_second
                     \<lparr>iodim_n = 5, iodim_is = 1, iodim_os = 1\<rparr> 7), \<lparr>flags = 8\<rparr>))
   \<and> (applicable (stub_env (Some 0) 50 (Some 7)) solver_first (Problem_dft problem_vec4) = Some 0
    \<and> dims_at (dft_vecsz problem_vec4) 0 = Inr \<lparr>iodim_n = 4, iodim_is = 8, iodim_os = 8\<rparr>
    \<and> mkplan_unaligned (stub_env (Some 0) 50 (Some 7)) problem_vec4
         \<lparr>iodim_n = 4, iodim_is = 8, iodim_os = 8\<rparr> \<lparr>flags = 0\<rparr> = \<lparr>flags = 0\<rparr>
    \<and> mkplan (stub_env (Some 0) 50 (Some 7)) solver_first (Problem_dft problem_vec4)
         \<lparr>flags = 0\<rparr> =
        Inr (Some (mkplan_pln (stub_env (Some 0) 50 (Some 7)) solver_first
                     \<lparr>iodim_n = 4, iodim_is = 8, iodim_os = 8\<rparr> 7), \<lparr>flags = 0\<rparr>))"
proof -
  let ?e1 = "stub_env (Some 1) 50 (Some 7)" and ?e0 = "stub_env (Some 0) 50 (Some 7)"
  let ?d1 = "\<lparr>iodim_n = 5, iodim_is = 1, iodim_os = 1\<rparr>"
  let ?d0 = "\<lparr>iodim_n = 4, iodim_is = 8, iodim_os = 8\<rparr>"
  let ?z = "\<lparr>flags = 0\<rparr>"
  have app1: "applicable ?e1 solver_second (Problem_dft problem_vec3x5) = Some 1"
    by (rule applicable_stub_vec3x5)
  have app0: "applicable ?e0 solver_first (Problem_dft problem_vec4) = Some 0"
    by (rule applicable_stub_vec4)
  have odd: "X_alignment_of ?e1 (dft_ri problem_vec3x5 + 1) \<noteq> 0"
    by (simp add: stub_env_def problem_vec3x5_def)
  then have mis: "iodim_n ?d1 > 0 \<and>
      (X_alignment_of ?e1 (dft_ri problem_vec3x5 + iodim_is ?d1) \<noteq> 0 \<or>
       X_alignment_of ?e1 (dft_ii problem_vec3x5 + iodim_is ?d1) \<noteq> 0 \<or>
       X_alignment_of ?e1 (dft_ro problem_vec3x5 + iodim_os ?d1) \<noteq> 0 \<or>
       X_alignment_of ?e1 (dft_io problem_vec3x5 + iodim_os ?d1) \<noteq> 0)"
    by simp
  have even: "iodim_n ?d0 = 0 \<or>
      (X_alignment_of ?e0 (dft_ri problem_vec4 + iodim_is ?d0) = 0 \<and>
       X_alignment_of ?e0 (dft_ii problem_vec4 + iodim_is ?d0) = 0 \<and>
       X_alignment_of ?e0 (dft_ro problem_vec4 + iodim_os ?d0) = 0 \<and>
       X_alignment_of ?e0 (dft_io problem_vec4 + iodim_os ?d0) = 0)"
    by (simp add: stub_env_def problem_vec4_def)
  note t1 = mkplan_records_alignment [where plnr = ?z, OF app1 dims_at_vec3x5]
  note t0 = mkplan_records_alignment [where plnr = ?z, OF app0 dims_at_vec4]
  from t1 mis
  have "mkplan_unaligned ?e1 problem_vec3x5 ?d1 ?z = ?z\<lparr>flags := flags ?z OR POSSIBLY_UNALIGNED ?e1\<rparr>"
    by blast
  then have u1: "mkplan_unaligned ?e1 problem_vec3x5 ?d1 ?z = \<lparr>flags = 8\<rparr>"
    by (simp add: stub_env_def)
  from t0 even have u0: "mkplan_unaligned ?e0 problem_vec4 ?d0 ?z = ?z"
    by blast
  have v1: "mkplan_vrecurse ?e1 problem_vec3x5 ?z = ?z"
    and v0: "mkplan_vrecurse ?e0 problem_vec4 ?z = ?z"
    by (simp_all add: mkplan_vrecurse_def)
  have s1: "MKPLAN ?e1 pl cp = (Some 7, pl)" and s0: "MKPLAN ?e0 pl cp = (Some 7, pl)" for pl cp
    by (simp_all add: stub_env_def)
  from t1 have "mkplan ?e1 solver_second (Problem_dft problem_vec3x5) ?z =
      (case MKPLAN ?e1 (mkplan_unaligned ?e1 problem_vec3x5 ?d1
                          (mkplan_vrecurse ?e1 problem_vec3x5 ?z))
                       (mkplan_cldp problem_vec3x5 1) of
         (None, plnr3) \<Rightarrow> Inr (None, plnr3)
       | (Some cld, plnr3) \<Rightarrow> Inr (Some (mkplan_pln ?e1 solver_second ?d1 cld), plnr3))"
    by (rule conjunct1)
  then have m1: "mkplan ?e1 solver_second (Problem_dft problem_vec3x5) ?z =
        Inr (Some (mkplan_pln ?e1 solver_second ?d1 7), \<lparr>flags = 8\<rparr>)"
    unfolding v1 u1 s1 by simp
  from t0 have "mkplan ?e0 solver_first (Problem_dft problem_vec4) ?z =
      (case MKPLAN ?e0 (mkplan_unaligned ?e0 problem_vec4 ?d0
                          (mkplan_vrecurse ?e0 problem_vec4 ?z))
                       (mkplan_cldp problem_vec4 0) of
         (None, plnr3) \<Rightarrow> Inr (None, plnr3)
       | (Some cld, plnr3) \<Rightarrow> Inr (Some (mkplan_pln ?e0 solver_first ?d0 cld), plnr3))"
    by (rule conjunct1)
  then have m0: "mkplan ?e0 solver_first (Problem_dft problem_vec4) ?z =
        Inr (Some (mkplan_pln ?e0 solver_first ?d0 7), ?z)"
    unfolding v0 u0 s0 by simp
  from app1 app0 dims_at_vec3x5 dims_at_vec4 odd u1 u0 m1 m0 show ?thesis
    by blast
qed

subsection \<open>When there is no plan\<close>

text \<open>
  Claim C8. Provided the index that \<open>applicable\<close> selects is a dimension of the vector
  shape, \<open>mkplan\<close> returns the null plan in exactly two cases: when \<open>applicable\<close> fails
  (and then the planner is untouched), and when the recursive solve of the reduced
  problem returns no plan. In every other case it returns the plan \<open>P\<close> whose child
  is the plan the recursive solve returned, with \<open>vl\<close>, \<open>ivs\<close>, \<open>ovs\<close> the length and the
  strides of the selected dimension. It never ends in a fault.
\<close>

theorem mkplan_no_plan_cases:
  assumes sel: "\<forall>vdim. applicable env ego p' = Some vdim \<longrightarrow>
                  (\<exists>d. dims_at (dft_vecsz (problem_dft_of p')) vdim = Inr d)"
  shows "(case applicable env ego p' of
            None \<Rightarrow> mkplan env ego p' plnr = Inr (None, plnr)
          | Some vdim \<Rightarrow>
              (\<exists>d. dims_at (dft_vecsz (problem_dft_of p')) vdim = Inr d \<and>
                 (case MKPLAN env (mkplan_unaligned env (problem_dft_of p') d
                                     (mkplan_vrecurse env (problem_dft_of p') plnr))
                                  (mkplan_cldp (problem_dft_of p') vdim) of
                    (None, plnr3) \<Rightarrow> mkplan env ego p' plnr = Inr (None, plnr3)
                  | (Some cld, plnr3) \<Rightarrow>
                      mkplan env ego p' plnr =
                        Inr (Some \<lparr>P_cld = cld, P_vl = iodim_n d, P_ivs = iodim_is d,
                                   P_ovs = iodim_os d, P_solver = ego,
                                   P_ops = X_ops_mul env (iodim_n d) (plan_ops env cld),
                                   P_pcost = real (iodim_n d) * plan_pcost env cld\<rparr>, plnr3))))
       \<and> ((\<exists>plnr'. mkplan env ego p' plnr = Inr (None, plnr')) \<longleftrightarrow>
            (applicable env ego p' = None \<or>
             (\<exists>vdim d. applicable env ego p' = Some vdim
                \<and> dims_at (dft_vecsz (problem_dft_of p')) vdim = Inr d
                \<and> fst (MKPLAN env (mkplan_unaligned env (problem_dft_of p') d
                                     (mkplan_vrecurse env (problem_dft_of p') plnr))
                                  (mkplan_cldp (problem_dft_of p') vdim)) = None)))
       \<and> (\<forall>e. mkplan env ego p' plnr \<noteq> Inl e)"
proof (cases "applicable env ego p'")
  case None
  then show ?thesis by (simp add: mkplan_inapplicable)
next
  case (Some vdim)
  with sel obtain d where d: "dims_at (dft_vecsz (problem_dft_of p')) vdim = Inr d"
    by blast
  obtain cld plnr3 where r:
    "MKPLAN env (mkplan_unaligned env (problem_dft_of p') d
                   (mkplan_vrecurse env (problem_dft_of p') plnr))
                (mkplan_cldp (problem_dft_of p') vdim) = (cld, plnr3)"
    by (cases "MKPLAN env (mkplan_unaligned env (problem_dft_of p') d
                   (mkplan_vrecurse env (problem_dft_of p') plnr))
                (mkplan_cldp (problem_dft_of p') vdim)")
  show ?thesis
    using Some d r mkplan_applicable [OF Some d, of plnr]
    by (cases cld) (simp_all add: mkplan_pln_def)
qed

text \<open>The first scenario: no dimension selected; no plan for the reduced problem;
  the child plan 7 for the reduced problem.\<close>

theorem mkplan_no_plan_cases_witness:
  "mkplan (stub_env None 50 (Some 7)) solver_first (Problem_dft problem_vec4) \<lparr>flags = 0\<rparr>
     = Inr (None, \<lparr>flags = 0\<rparr>)
   \<and> mkplan (stub_env (Some 0) 50 None) solver_first (Problem_dft problem_vec4) \<lparr>flags = 0\<rparr>
     = Inr (None, \<lparr>flags = 0\<rparr>)
   \<and> mkplan (stub_env (Some 0) 50 (Some 7)) solver_first (Problem_dft problem_vec4) \<lparr>flags = 0\<rparr>
     = Inr (Some \<lparr>P_cld = 7, P_vl = 4, P_ivs = 8, P_ovs = 8, P_solver = solver_first,
                 P_ops = 28, P_pcost = 4\<rparr>, \<lparr>flags = 0\<rparr>)"
proof -
  let ?p = "Problem_dft problem_vec4"
  have sel: "\<forall>vdim. applicable (stub_env s 50 c) solver_first ?p = Some vdim \<longrightarrow>
                  (\<exists>d. dims_at (dft_vecsz (problem_dft_of ?p)) vdim = Inr d)"
    if "s = None \<or> s = Some 0" for s c
    using that dims_at_vec4 by (auto simp: applicable_stub_vec4)
  have u: "mkplan_unaligned (stub_env s 50 c) problem_vec4 \<lparr>iodim_n = 4, iodim_is = 8, iodim_os = 8\<rparr>
             (mkplan_vrecurse (stub_env s 50 c) problem_vec4 \<lparr>flags = 0\<rparr>) = \<lparr>flags = 0\<rparr>" for s c
    by (simp add: mkplan_unaligned_def mkplan_vrecurse_def stub_env_def problem_vec4_def)
  have "mkplan (stub_env None 50 (Some 7)) solver_first ?p \<lparr>flags = 0\<rparr> = Inr (None, \<lparr>flags = 0\<rparr>)"
    using mkplan_no_plan_cases [OF sel, of None "Some 7" "\<lparr>flags = 0\<rparr>"]
    by (simp add: applicable_stub_vec4)
  moreover
  have "mkplan (stub_env (Some 0) 50 None) solver_first ?p \<lparr>flags = 0\<rparr> = Inr (None, \<lparr>flags = 0\<rparr>)"
    using mkplan_no_plan_cases [OF sel, of "Some 0" None "\<lparr>flags = 0\<rparr>"]
    by (simp add: applicable_stub_vec4 dims_at_vec4 u) (simp add: stub_env_def)
  moreover
  have "mkplan (stub_env (Some 0) 50 (Some 7)) solver_first ?p \<lparr>flags = 0\<rparr>
     = Inr (Some \<lparr>P_cld = 7, P_vl = 4, P_ivs = 8, P_ovs = 8, P_solver = solver_first,
                 P_ops = 28, P_pcost = 4\<rparr>, \<lparr>flags = 0\<rparr>)"
    using mkplan_no_plan_cases [OF sel, of "Some 0" "Some 7" "\<lparr>flags = 0\<rparr>"]
    by (simp add: applicable_stub_vec4 dims_at_vec4 u) (simp add: stub_env_def)
  ultimately show ?thesis by blast
qed

subsection \<open>Problems of another kind\<close>

text \<open>
  Claim C9. On a problem that is not a DFT problem, \<open>applicable\<close> fails whatever the
  selector and the other collaborators are (the vector shape is not read), \<open>score\<close>
  returns \<open>BAD\<close>, and \<open>mkplan\<close> returns the null plan and leaves the planner as it is.
\<close>

theorem non_dft_problem_rejected:
  assumes "\<not> DFTP p'"
  shows "applicable env ego p' = None
       \<and> score env ego p' plnr = (Inr BAD, plnr)
       \<and> mkplan env ego p' plnr = Inr (None, plnr)"
  using assms by (simp add: applicable_not_DFTP score_def mkplan_inapplicable)

theorem non_dft_problem_rejected_witness:
  "\<not> DFTP Problem_other
   \<and> applicable (stub_env (Some 0) 50 (Some 7)) solver_first Problem_other = None
   \<and> score (stub_env (Some 0) 50 (Some 7)) solver_first Problem_other \<lparr>flags = 7\<rparr>
       = (Inr BAD, \<lparr>flags = 7\<rparr>)
   \<and> mkplan (stub_env (Some 0) 50 (Some 7)) solver_first Problem_other \<lparr>flags = 7\<rparr>
       = Inr (None, \<lparr>flags = 7\<rparr>)"
proof -
  have k: "\<not> DFTP Problem_other"
    by simp
  from k non_dft_problem_rejected [OF k, of "stub_env (Some 0) 50 (Some 7)" solver_first
      "\<lparr>flags = 7\<rparr>"]
  show ?thesis by blast
qed

subsection \<open>What \<open>score\<close> leaves\<close>

text \<open>
  Claim C10. Whatever the problem and the planner, the planner that \<open>score\<close> leaves is
  the planner it was given, flags and all other fields: \<open>score\<close> writes nothing.
  (\<open>applicable\<close> is not given the planner, and a problem is a value.)
\<close>

theorem score_leaves_planner:
  "snd (score env ego p' plnr) = plnr"
proof (cases "applicable env ego p'")
  case None
  then show ?thesis by (simp add: score_def)
next
  case (Some vdim)
  show ?thesis
  proof (cases "dims_at (dft_vecsz (problem_dft_of p')) vdim")
    case (Inl e)
    with Some show ?thesis by (simp add: score_def Let_def)
  next
    case (Inr d)
    with Some show ?thesis by (simp add: score_def Let_def)
  qed
qed

end
